theory Spec2Isabelle
  imports Main "HOL-Library.Sublist"
begin

section \<open>JavaScript strings and arrays\<close>

text \<open>
  A JavaScript string is modelled as a \<^typ>\<open>string\<close>: one \<^typ>\<open>char\<close> stands for one
  UTF-16 code unit below 256 (the ASCII and Latin-1 range), so \<open>length\<close> is the
  \<^verbatim>\<open>.length\<close> of such a string.
\<close>

text \<open>\<^verbatim>\<open>Array.prototype.some\<close>: true when the callback holds for an element.\<close>

primrec some :: "('a \<Rightarrow> bool) \<Rightarrow> 'a list \<Rightarrow> bool" where
  "some p [] = False"
| "some p (x # xs) = (p x \<or> some p xs)"

text \<open>\<^verbatim>\<open>s.startsWith(r)\<close>: the code units of \<open>r\<close> are the first ones of \<open>s\<close>.\<close>

fun startsWith :: "string \<Rightarrow> string \<Rightarrow> bool" where
  "startsWith s [] = True"
| "startsWith [] (c # cs) = False"
| "startsWith (x # xs) (c # cs) = (x = c \<and> startsWith xs cs)"

text \<open>\<^verbatim>\<open>s.includes(r)\<close>: \<open>r\<close> occurs in \<open>s\<close> at some position.\<close>

fun str_includes :: "string \<Rightarrow> string \<Rightarrow> bool" where
  "str_includes [] r = (r = [])"
| "str_includes (x # xs) r = (startsWith (x # xs) r \<or> str_includes xs r)"

text \<open>
  \<^verbatim>\<open>s.toLowerCase()\<close> on code units below 256: the letters A to Z and the Latin-1
  capitals (0xC0 to 0xDE, but not the multiplication sign 0xD7) move up by 32.
\<close>

definition toLowerCase_unit :: "char \<Rightarrow> char" where
  "toLowerCase_unit c =
     (let n = (of_char c :: nat)
      in if (65 \<le> n \<and> n \<le> 90) \<or> (192 \<le> n \<and> n \<le> 222 \<and> n \<noteq> 215)
         then char_of (n + 32) else c)"

definition toLowerCase :: "string \<Rightarrow> string" where
  "toLowerCase s = map toLowerCase_unit s"

section \<open>Session middleware (lib/supabase/middleware.ts)\<close>

record User =
  uid :: string
  email :: string

record AuthError =
  message :: string

text \<open>A cookie is its name and its value; the options of a cookie are left out.\<close>

type_synonym cookie = "string \<times> string"

record URL =
  origin :: string
  pathname :: string
  searchParams :: "(string \<times> string) list"

record NextRequest =
  nextUrl :: URL
  cookies :: "cookie list"

text \<open>
  What \<^verbatim>\<open>await supabase.auth.getUser()\<close> hands to the middleware: the batches of
  cookies the client passed to \<^verbatim>\<open>setAll\<close> while refreshing, and the destructured
  \<^verbatim>\<open>{ data: { user }, error }\<close>. A call that throws is outside this model: the
  middleware has no \<^verbatim>\<open>try\<close>, so the exception leaves \<open>updateSession\<close>.
\<close>

record GetUserResponse =
  cookiesToSet :: "cookie list list"
  data_user :: "User option"
  getUser_error :: "AuthError option"

text \<open>
  A response is either \<^verbatim>\<open>NextResponse.next\<close> (the request's cookies as forwarded, and
  the cookies set on the response) or \<^verbatim>\<open>NextResponse.redirect\<close> to a URL.
\<close>

datatype NextResponse = Next "cookie list" "cookie list" | Redirect URL

text \<open>\<^verbatim>\<open>cookies.set(name, value)\<close>: replaces the cookie of that name or adds it.\<close>

fun cookies_set :: "cookie \<Rightarrow> cookie list \<Rightarrow> cookie list" where
  "cookies_set c [] = [c]"
| "cookies_set c (d # ds) = (if fst d = fst c then c # ds else d # cookies_set c ds)"

text \<open>
  The \<^verbatim>\<open>setAll\<close> callback: the cookies are written into the request, the response is
  made anew from the request, and the cookies are written into that response.
\<close>

definition setAll :: "cookie list \<Rightarrow> cookie list \<times> cookie list \<Rightarrow> cookie list \<times> cookie list" where
  "setAll batch st = (fold cookies_set batch (fst st), fold cookies_set batch [])"

text \<open>\<^verbatim>\<open>searchParams.set(k, v)\<close>: the first pair of that name takes the value, later ones go.\<close>

fun searchParams_set :: "string \<Rightarrow> string \<Rightarrow> (string \<times> string) list \<Rightarrow> (string \<times> string) list" where
  "searchParams_set k v [] = [(k, v)]"
| "searchParams_set k v (p # ps) =
     (if fst p = k then (k, v) # filter (\<lambda>q. fst q \<noteq> k) ps else p # searchParams_set k v ps)"

text \<open>\<^verbatim>\<open>new URL(path, request.url)\<close> for an absolute path: the request's origin, the path, no query.\<close>

definition new_URL :: "string \<Rightarrow> NextRequest \<Rightarrow> URL" where
  "new_URL path request = \<lparr>origin = origin (nextUrl request), pathname = path, searchParams = []\<rparr>"

definition protectedRoutes :: "string list" where
  "protectedRoutes =
     [''/dashboard'', ''/profile'', ''/favorites'', ''/watchlist'', ''/reviews/create'', ''/movies/rate'']"

definition authRoutes :: "string list" where
  "authRoutes = [''/auth/login'', ''/auth/register'', ''/auth/forgot-password'', ''/auth/reset-password'']"

definition authCallbackRoutes :: "string list" where
  "authCallbackRoutes = [''/auth/callback'', ''/auth/auth-code-error'']"

definition isProtectedRoute :: "string \<Rightarrow> bool" where
  "isProtectedRoute path = some (\<lambda>route. startsWith path route) protectedRoutes"

definition isAuthRoute :: "string \<Rightarrow> bool" where
  "isAuthRoute path = some (\<lambda>route. path = route) authRoutes"

definition isAuthCallbackRoute :: "string \<Rightarrow> bool" where
  "isAuthCallbackRoute path = some (\<lambda>route. startsWith path route) authCallbackRoutes"

definition updateSession :: "NextRequest \<Rightarrow> GetUserResponse \<Rightarrow> NextResponse" where
  "updateSession request r =
     (let jar = fold setAll (cookiesToSet r) (cookies request, []);
          response = Next (fst jar) (snd jar);
          user = data_user r;
          path = pathname (nextUrl request)
      in if isAuthCallbackRoute path then response
         else if user \<noteq> None \<and> isAuthRoute path
           then Redirect (new_URL ''/dashboard'' request)
         else if user = None \<and> isProtectedRoute path
           then Redirect ((new_URL ''/auth/login'' request)
                  \<lparr>searchParams := searchParams_set ''redirectTo'' path
                                     (searchParams (new_URL ''/auth/login'' request))\<rparr>)
         else response)"

text \<open>The pass-through response of a request: \<^verbatim>\<open>response\<close> as it stands after the provider call.\<close>

definition passThrough :: "NextRequest \<Rightarrow> GetUserResponse \<Rightarrow> NextResponse" where
  "passThrough request r =
     Next (fst (fold setAll (cookiesToSet r) (cookies request, [])))
          (snd (fold setAll (cookiesToSet r) (cookies request, [])))"

definition loginRedirect :: "NextRequest \<Rightarrow> NextResponse" where
  "loginRedirect request =
     Redirect \<lparr>origin = origin (nextUrl request), pathname = ''/auth/login'',
               searchParams = [(''redirectTo'', pathname (nextUrl request))]\<rparr>"

definition dashboardRedirect :: "NextRequest \<Rightarrow> NextResponse" where
  "dashboardRedirect request =
     Redirect \<lparr>origin = origin (nextUrl request), pathname = ''/dashboard'', searchParams = []\<rparr>"

section \<open>Regular expressions of the password rules\<close>

text \<open>
  The password rules test \<^verbatim>\<open>/(?=.*[...])/\<close>: an unanchored search whose only item is
  a lookahead for \<^verbatim>\<open>.*\<close> followed by one unit of a class. The dot matches every unit
  but a line terminator.
\<close>

definition lineTerminator :: "char \<Rightarrow> bool" where
  "lineTerminator c = (c = CHR 0x0A \<or> c = CHR 0x0D)"

text \<open>\<^verbatim>\<open>.*[cls]\<close> matched at the start of the input.\<close>

fun dotStar_then :: "(char \<Rightarrow> bool) \<Rightarrow> string \<Rightarrow> bool" where
  "dotStar_then cls [] = False"
| "dotStar_then cls (c # cs) = (cls c \<or> (\<not> lineTerminator c \<and> dotStar_then cls cs))"

text \<open>\<^verbatim>\<open>regex.test(s)\<close> without flags: the match is tried at every position, the end included.\<close>

fun regex_test :: "(string \<Rightarrow> bool) \<Rightarrow> string \<Rightarrow> bool" where
  "regex_test m [] = m []"
| "regex_test m (c # cs) = (m (c # cs) \<or> regex_test m cs)"

definition class_lower :: "char \<Rightarrow> bool" where
  "class_lower c = (97 \<le> (of_char c :: nat) \<and> (of_char c :: nat) \<le> 122)"

definition class_upper :: "char \<Rightarrow> bool" where
  "class_upper c = (65 \<le> (of_char c :: nat) \<and> (of_char c :: nat) \<le> 90)"

definition class_digit :: "char \<Rightarrow> bool" where
  "class_digit c = (48 \<le> (of_char c :: nat) \<and> (of_char c :: nat) \<le> 57)"

text \<open>
  The units of the class of special characters; the three written by their codes are
  the apostrophe, the double quote and the backslash.
\<close>

definition specialChars :: string where
  "specialChars = ''!@#$%^&*()_+-=[]{};:|,.<>/?'' @ [CHR 0x27, CHR 0x22, CHR 0x5C]"

definition class_special :: "char \<Rightarrow> bool" where
  "class_special c = (c \<in> set specialChars)"

section \<open>Auth service (lib/auth.ts)\<close>

text \<open>
  A call of the provider's client either returns its response or throws; what is thrown
  is an \<^verbatim>\<open>Error\<close> with a message or some other value.
\<close>

datatype thrown = ErrorInstance string | OtherValue

datatype 'a outcome = Returns 'a | Throws thrown

record UpdateData =
  password :: string
  nonce :: "string option"

text \<open>
  The response of \<^verbatim>\<open>updateUser\<close>: \<open>data\<close> may be missing, and its \<open>user\<close> may be null.
\<close>

record UserResponse =
  data :: "User option option"
  api_error :: "AuthError option"

text \<open>
  The provider's client \<^verbatim>\<open>supabase.auth\<close>, as far as the service calls it. A response
  \<^verbatim>\<open>{ error }\<close> is its \<open>error\<close> alone.
\<close>

record SupabaseAuth =
  resetPasswordForEmail :: "string \<Rightarrow> string \<Rightarrow> AuthError option outcome"
  updateUser :: "UpdateData \<Rightarrow> UserResponse outcome"
  auth_reauthenticate :: "AuthError option outcome"

text \<open>The results of the service: \<^verbatim>\<open>{ error }\<close> and \<^verbatim>\<open>{ user, error }\<close>.\<close>

record ErrorResult =
  error :: "AuthError option"

text \<open>The \<open>user\<close> of a result: a user of the provider, or the object \<^verbatim>\<open>{ updated: true }\<close>.\<close>

datatype user_value = TheUser User | Updated

record UpdateResult = ErrorResult +
  user :: "user_value option"

text \<open>
  \<open>sendPasswordResetEmail\<close>. The first argument is \<^verbatim>\<open>window.location.origin\<close>, absent
  where there is no \<^verbatim>\<open>window\<close>: reading it throws inside the \<^verbatim>\<open>try\<close>.
\<close>

definition sendPasswordResetEmail :: "SupabaseAuth \<Rightarrow> string option \<Rightarrow> string \<Rightarrow> ErrorResult" where
  "sendPasswordResetEmail supabase window_origin email_address =
     (case window_origin of
        None \<Rightarrow> \<lparr>error = Some \<lparr>message = ''Failed to send password reset email''\<rparr>\<rparr>
      | Some orig \<Rightarrow>
          (case resetPasswordForEmail supabase email_address (orig @ ''/auth/reset-password'') of
             Returns (Some e) \<Rightarrow> \<lparr>error = Some \<lparr>message = message e\<rparr>\<rparr>
           | Returns None \<Rightarrow> \<lparr>error = None\<rparr>
           | Throws t \<Rightarrow> \<lparr>error = Some \<lparr>message = ''Failed to send password reset email''\<rparr>\<rparr>))"

text \<open>
  \<open>updatePassword\<close>. The nonce goes into the update only when it is truthy: given and
  not the empty string.
\<close>

definition updatePassword :: "SupabaseAuth \<Rightarrow> string \<Rightarrow> string option \<Rightarrow> UpdateResult" where
  "updatePassword supabase newPassword nonce_arg =
     (let updateData = \<lparr>password = newPassword,
                         nonce = (case nonce_arg of
                                    Some n \<Rightarrow> if n \<noteq> [] then Some n else None
                                  | None \<Rightarrow> None)\<rparr>
      in case updateUser supabase updateData of
           Returns r \<Rightarrow>
             (case api_error r of
                Some e \<Rightarrow> \<lparr>error = Some \<lparr>message = message e\<rparr>, user = None\<rparr>
              | None \<Rightarrow>
                  \<lparr>error = None,
                   user = Some (case data r of
                                  Some (Some u) \<Rightarrow> TheUser u
                                | Some None \<Rightarrow> Updated
                                | None \<Rightarrow> Updated)\<rparr>)
         | Throws t \<Rightarrow>
             \<lparr>error = Some \<lparr>message = (case t of
                                           ErrorInstance m \<Rightarrow> m
                                         | OtherValue \<Rightarrow> ''Failed to update password'')\<rparr>,
              user = None\<rparr>)"

definition reauthenticate :: "SupabaseAuth \<Rightarrow> ErrorResult" where
  "reauthenticate supabase =
     (case auth_reauthenticate supabase of
        Returns (Some e) \<Rightarrow> \<lparr>error = Some \<lparr>message = message e\<rparr>\<rparr>
      | Returns None \<Rightarrow> \<lparr>error = None\<rparr>
      | Throws t \<Rightarrow> \<lparr>error = Some \<lparr>message = ''Failed to send reauthentication nonce''\<rparr>\<rparr>)"

section \<open>The password forms\<close>

text \<open>
  The state both forms hold with \<^verbatim>\<open>useState\<close>; \<open>errors\<close> is the record of messages by
  field, in the order the keys were added.
\<close>

record FormState =
  formData_password :: string
  formData_confirmPassword :: string
  errors :: "(string \<times> string) list"
  isLoading :: bool
  isSuccess :: bool

record ResetPasswordFormState = FormState +
  isTokenValid :: "bool option"

record DashboardPasswordResetState = FormState +
  formData_nonce :: string
  needsReauth :: bool
  reauthSent :: bool

text \<open>
  What a handler does besides setting state, in order: the calls of the auth service,
  the toasts, and the call of \<^verbatim>\<open>onSuccess\<close>. The service's \<open>reauthenticate\<close> calls the
  provider's nonce dispatch exactly once, and \<open>updatePassword\<close> calls \<open>updateUser\<close>
  exactly once. The toasts and \<^verbatim>\<open>onSuccess\<close> are taken to return: the \<^verbatim>\<open>catch\<close> of a
  handler, which only they could reach, is left out.
\<close>

datatype effect =
    CallUpdatePassword string "string option"
  | CallReauthenticate
  | ToastError string
  | ToastSuccess string
  | OnSuccess

subsection \<open>ResetPasswordForm\<close>

definition ResetPasswordForm_validatePassword :: "string \<Rightarrow> string" where
  "ResetPasswordForm_validatePassword pw =
     (if pw = [] then ''Password is required''
      else if length pw < 8 then ''Password must be at least 8 characters''
      else if length pw > 128 then ''Password is too long''
      else if \<not> regex_test (dotStar_then class_lower) pw
        then ''Password must contain at least one lowercase letter''
      else if \<not> regex_test (dotStar_then class_upper) pw
        then ''Password must contain at least one uppercase letter''
      else if \<not> regex_test (dotStar_then class_digit) pw
        then ''Password must contain at least one number''
      else if \<not> regex_test (dotStar_then class_special) pw
        then ''Password must contain at least one special character''
      else [])"

definition ResetPasswordForm_validateConfirmPassword :: "string \<Rightarrow> string \<Rightarrow> string" where
  "ResetPasswordForm_validateConfirmPassword pw confirm =
     (if confirm = [] then ''Please confirm your password''
      else if pw \<noteq> confirm then ''Passwords do not match''
      else [])"

text \<open>\<open>validateForm\<close>: the new \<open>errors\<close>; the form is valid when they have no key.\<close>

definition ResetPasswordForm_newErrors :: "ResetPasswordFormState \<Rightarrow> (string \<times> string) list" where
  "ResetPasswordForm_newErrors st =
     (let passwordError = ResetPasswordForm_validatePassword (formData_password st);
          confirmPasswordError =
            ResetPasswordForm_validateConfirmPassword (formData_password st) (formData_confirmPassword st)
      in (if passwordError \<noteq> [] then [(''password'', passwordError)] else []) @
         (if confirmPasswordError \<noteq> [] then [(''confirmPassword'', confirmPasswordError)] else []))"

definition ResetPasswordForm_validateForm :: "ResetPasswordFormState \<Rightarrow> bool" where
  "ResetPasswordForm_validateForm st = (length (ResetPasswordForm_newErrors st) = 0)"

definition handleSubmit ::
  "SupabaseAuth \<Rightarrow> ResetPasswordFormState \<Rightarrow> ResetPasswordFormState \<times> effect list" where
  "handleSubmit supabase st =
     (if \<not> ResetPasswordForm_validateForm st
      then (st\<lparr>errors := ResetPasswordForm_newErrors st\<rparr>, [])
      else
        let st1 = st\<lparr>errors := [], isLoading := True\<rparr>;
            called = CallUpdatePassword (formData_password st) None;
            result = updatePassword supabase (formData_password st) None
        in case error result of
             Some e \<Rightarrow>
               (st1\<lparr>errors := [(''submit'', message e)], isLoading := False\<rparr>,
                [called,
                 ToastError (if message e \<noteq> [] then message e else ''Failed to reset password.'')])
           | None \<Rightarrow>
               (if user result \<noteq> None
                then (st1\<lparr>isSuccess := True, isLoading := False\<rparr>,
                      [called, ToastSuccess ''Password has been reset successfully!'', OnSuccess])
                else (st1\<lparr>errors := [(''submit'',
                                        ''Password update status unclear - please try logging in'')],
                          isLoading := False\<rparr>,
                      [called,
                       ToastError ''Password update status unclear - please try logging in with your new password.''])))"

subsection \<open>DashboardPasswordReset\<close>

definition validatePassword :: "string \<Rightarrow> string" where
  "validatePassword pw =
     (if pw = [] then ''Password is required''
      else if length pw < 8 then ''Password must be at least 8 characters''
      else if length pw > 128 then ''Password is too long''
      else if \<not> regex_test (dotStar_then class_lower) pw
        then ''Password must contain at least one lowercase letter''
      else if \<not> regex_test (dotStar_then class_upper) pw
        then ''Password must contain at least one uppercase letter''
      else if \<not> regex_test (dotStar_then class_digit) pw
        then ''Password must contain at least one number''
      else if \<not> regex_test (dotStar_then class_special) pw
        then ''Password must contain at least one special character''
      else [])"

definition validateConfirmPassword :: "string \<Rightarrow> string \<Rightarrow> string" where
  "validateConfirmPassword pw confirm =
     (if confirm = [] then ''Please confirm your password''
      else if pw \<noteq> confirm then ''Passwords do not match''
      else [])"

definition newErrors :: "DashboardPasswordResetState \<Rightarrow> (string \<times> string) list" where
  "newErrors st =
     (let passwordError = validatePassword (formData_password st);
          confirmPasswordError =
            validateConfirmPassword (formData_password st) (formData_confirmPassword st)
      in (if passwordError \<noteq> [] then [(''password'', passwordError)] else []) @
         (if confirmPasswordError \<noteq> [] then [(''confirmPassword'', confirmPasswordError)] else []) @
         (if needsReauth st \<and> formData_nonce st = []
          then [(''nonce'', ''Verification code is required'')] else []))"

definition validateForm :: "DashboardPasswordResetState \<Rightarrow> bool" where
  "validateForm st = (length (newErrors st) = 0)"

definition handleSendReauth ::
  "SupabaseAuth \<Rightarrow> DashboardPasswordResetState
     \<Rightarrow> DashboardPasswordResetState \<times> effect list \<times> bool" where
  "handleSendReauth supabase st =
     (let st1 = st\<lparr>isLoading := True, errors := []\<rparr>
      in case error (reauthenticate supabase) of
           Some e \<Rightarrow>
             (st1\<lparr>isLoading := False\<rparr>,
              [CallReauthenticate, ToastError (''Failed to send verification code: '' @ message e)],
              False)
         | None \<Rightarrow>
             (st1\<lparr>reauthSent := True, needsReauth := True, isLoading := False\<rparr>,
              [CallReauthenticate, ToastSuccess ''A verification code has been sent to your email''],
              True))"

text \<open>The two tests \<open>handlePasswordUpdate\<close> makes on the lower-cased message of an error.\<close>

definition samePasswordError :: "string \<Rightarrow> bool" where
  "samePasswordError errorMessage =
     (str_includes errorMessage ''new password should be different'' \<or>
      str_includes errorMessage ''same as'' \<or>
      str_includes errorMessage ''already'')"

definition reauthRequiredError :: "string \<Rightarrow> bool" where
  "reauthRequiredError errorMessage =
     (str_includes errorMessage ''reauthentication'' \<or>
      str_includes errorMessage ''nonce'' \<or>
      str_includes errorMessage ''verification'' \<or>
      str_includes errorMessage ''recent sign'')"

definition mustBeDifferent :: string where
  "mustBeDifferent =
     ''New password must be different from your current password. Please choose a different password.''"

definition invalidNonce :: string where
  "invalidNonce = ''Invalid or expired verification code. Please try again.''"

definition handlePasswordUpdate ::
  "SupabaseAuth \<Rightarrow> DashboardPasswordResetState \<Rightarrow> DashboardPasswordResetState \<times> effect list" where
  "handlePasswordUpdate supabase st =
     (if \<not> validateForm st
      then (st\<lparr>errors := newErrors st\<rparr>, [])
      else
        let st1 = st\<lparr>isLoading := True, errors := []\<rparr>;
            nonce_arg = (if needsReauth st then Some (formData_nonce st) else None);
            called = CallUpdatePassword (formData_password st) nonce_arg;
            result = updatePassword supabase (formData_password st) nonce_arg
        in case error result of
             Some e \<Rightarrow>
               (let errorMessage = toLowerCase (message e)
                in if samePasswordError errorMessage
                   then (st1\<lparr>isLoading := False\<rparr>, [called, ToastError mustBeDifferent])
                   else if reauthRequiredError errorMessage
                   then (if \<not> needsReauth st
                         then (case handleSendReauth supabase st1 of
                                 (st2, effects, sent) \<Rightarrow> (st2\<lparr>isLoading := False\<rparr>, called # effects))
                         else (st1\<lparr>errors := [(''nonce'', invalidNonce)], isLoading := False\<rparr>,
                               [called]))
                   else if str_includes errorMessage ''timeout''
                   then (st1\<lparr>isLoading := False\<rparr>,
                         [called, ToastError ''Password update timed out. Please try again.''])
                   else (st1\<lparr>isLoading := False\<rparr>, [called, ToastError (message e)]))
           | None \<Rightarrow>
               (st1\<lparr>isSuccess := True, isLoading := False\<rparr>,
                [called, ToastSuccess ''Your password has been updated successfully!'', OnSuccess]))"

section \<open>Password reset service: the tokens of the callback URL\<close>

text \<open>\<^verbatim>\<open>window.location\<close>, as far as it is read: the fragment with its \<open>#\<close> and the query
  with its \<open>?\<close>, each empty when the URL has none.\<close>

record Location =
  hash :: string
  search :: string

record Tokens =
  accessToken :: "string option"
  refreshToken :: "string option"

text \<open>\<^verbatim>\<open>params.get(name)\<close>: the value of the first pair of that name, or null.\<close>

fun URLSearchParams_get :: "(string \<times> string) list \<Rightarrow> string \<Rightarrow> string option" where
  "URLSearchParams_get [] k = None"
| "URLSearchParams_get (p # ps) k = (if fst p = k then Some (snd p) else URLSearchParams_get ps k)"

text \<open>Truthiness of a string or null, and \<^verbatim>\<open>a || b\<close> on such values.\<close>

definition truthy :: "string option \<Rightarrow> bool" where
  "truthy v = (case v of None \<Rightarrow> False | Some s \<Rightarrow> s \<noteq> [])"

definition or_js :: "string option \<Rightarrow> string option \<Rightarrow> string option" where
  "or_js a b = (if truthy a then a else b)"

text \<open>
  \<open>extractTokensFromUrl\<close>. The first argument is the platform's constructor
  \<^verbatim>\<open>new URLSearchParams(string)\<close>; the second is \<^verbatim>\<open>window.location\<close>, absent where there
  is no \<^verbatim>\<open>window\<close>: the read throws and the \<^verbatim>\<open>catch\<close> returns the empty object.
\<close>

definition extractTokensFromUrl ::
  "(string \<Rightarrow> (string \<times> string) list) \<Rightarrow> Location option \<Rightarrow> Tokens" where
  "extractTokensFromUrl new_URLSearchParams window_location =
     (case window_location of
        None \<Rightarrow> \<lparr>accessToken = None, refreshToken = None\<rparr>
      | Some loc \<Rightarrow>
          (let hashParams = new_URLSearchParams (drop 1 (hash loc));
               searchParams = new_URLSearchParams (search loc)
           in \<lparr>accessToken =
                  or_js (or_js (URLSearchParams_get hashParams ''access_token'')
                               (URLSearchParams_get searchParams ''access_token'')) None,
                refreshToken =
                  or_js (or_js (URLSearchParams_get hashParams ''refresh_token'')
                               (URLSearchParams_get searchParams ''refresh_token'')) None\<rparr>))"

text \<open>
  A model of the platform's \<^verbatim>\<open>new URLSearchParams(string)\<close> for the examples, after
  the URL standard: a leading \<open>?\<close> is dropped, the string is encoded as UTF-8 and split
  at \<open>&\<close>, empty pieces are skipped, each piece is split at its first \<open>=\<close>, and in name
  and value \<open>+\<close> becomes a space, \<open>%XY\<close> the byte of that code, and the bytes are decoded
  as UTF-8. The strings here have units below 256 only, so a unit from 128 on is two
  bytes, and the two-byte sequences with a lead byte 0xC2 or 0xC3 are the ones that
  decode to such a unit. A percent sequence that decodes to a code point from 256 on,
  or that is not UTF-8, has no image among these strings: such input is outside the
  model, and the function leaves its bytes as they are.
\<close>

definition utf8_encode_unit :: "char \<Rightarrow> string" where
  "utf8_encode_unit c =
     (let n = (of_char c :: nat)
      in if n < 128 then [c] else [char_of (192 + n div 64), char_of (128 + n mod 64)])"

definition utf8_encode :: "string \<Rightarrow> string" where
  "utf8_encode s = concat (map utf8_encode_unit s)"

fun utf8_decode :: "string \<Rightarrow> string" where
  "utf8_decode (l # k # cs) =
     (if ((of_char l :: nat) = 194 \<or> (of_char l :: nat) = 195) \<and>
         128 \<le> (of_char k :: nat) \<and> (of_char k :: nat) \<le> 191
      then char_of (((of_char l :: nat) - 192) * 64 + ((of_char k :: nat) - 128)) # utf8_decode cs
      else l # utf8_decode (k # cs))"
| "utf8_decode cs = cs"

fun split_amp :: "string \<Rightarrow> string list" where
  "split_amp [] = [[]]"
| "split_amp (c # cs) =
     (if c = CHR ''&'' then [] # split_amp cs
      else (case split_amp cs of [] \<Rightarrow> [[c]] | w # ws \<Rightarrow> (c # w) # ws))"

definition hex_digit :: "char \<Rightarrow> nat option" where
  "hex_digit c =
     (let n = (of_char c :: nat)
      in if 48 \<le> n \<and> n \<le> 57 then Some (n - 48)
         else if 65 \<le> n \<and> n \<le> 70 then Some (n - 55)
         else if 97 \<le> n \<and> n \<le> 102 then Some (n - 87)
         else None)"

fun percent_decode :: "string \<Rightarrow> string" where
  "percent_decode (p # h # l # cs) =
     (case (p = CHR ''%'', hex_digit h, hex_digit l) of
        (True, Some a, Some b) \<Rightarrow> char_of (16 * a + b) # percent_decode cs
      | _ \<Rightarrow> p # percent_decode (h # l # cs))"
| "percent_decode cs = cs"

definition form_decode :: "string \<Rightarrow> string" where
  "form_decode s =
     utf8_decode (percent_decode (map (\<lambda>c. if c = CHR ''+'' then CHR '' '' else c) s))"

definition URLSearchParams :: "string \<Rightarrow> (string \<times> string) list" where
  "URLSearchParams init =
     map (\<lambda>piece. (form_decode (takeWhile (\<lambda>c. c \<noteq> CHR ''='') piece),
                    form_decode (drop 1 (dropWhile (\<lambda>c. c \<noteq> CHR ''='') piece))))
       (filter (\<lambda>piece. piece \<noteq> [])
          (split_amp (utf8_encode (if startsWith init ''?'' then drop 1 init else init))))"

section \<open>The password policy in the words of the specification\<close>

text \<open>
  The specification asks for a lowercase letter, an uppercase letter, a digit and a
  symbol. Among the units below 256 the lowercase letters are a to z, the micro sign
  and the letters from sharp s to y with diaeresis (without the division sign); the
  uppercase letters are A to Z and the letters from A with grave to Thorn (without the
  multiplication sign); the digits are 0 to 9; and a symbol is a visible unit that is
  neither a letter nor a digit (the two ordinal indicators are letters, the soft hyphen
  is not visible).
\<close>

definition spec_lowercase :: "char \<Rightarrow> bool" where
  "spec_lowercase c =
     (let n = (of_char c :: nat)
      in (97 \<le> n \<and> n \<le> 122) \<or> n = 181 \<or> (223 \<le> n \<and> n \<le> 246) \<or> (248 \<le> n \<and> n \<le> 255))"

definition spec_uppercase :: "char \<Rightarrow> bool" where
  "spec_uppercase c =
     (let n = (of_char c :: nat)
      in (65 \<le> n \<and> n \<le> 90) \<or> (192 \<le> n \<and> n \<le> 214) \<or> (216 \<le> n \<and> n \<le> 222))"

definition spec_digit :: "char \<Rightarrow> bool" where
  "spec_digit c = (48 \<le> (of_char c :: nat) \<and> (of_char c :: nat) \<le> 57)"

definition spec_symbol :: "char \<Rightarrow> bool" where
  "spec_symbol c =
     (let n = (of_char c :: nat)
      in ((33 \<le> n \<and> n \<le> 126) \<or> (161 \<le> n \<and> n \<noteq> 173)) \<and> n \<noteq> 170 \<and> n \<noteq> 186 \<and>
         \<not> spec_lowercase c \<and> \<not> spec_uppercase c \<and> \<not> spec_digit c)"

text \<open>
  The rules in their order, each with the message of the rule; a password gets the
  message of the first rule it does not meet, and the empty message when it meets all.
\<close>

definition policy_rules :: "((string \<Rightarrow> bool) \<times> string) list" where
  "policy_rules =
     [(\<lambda>pw. pw \<noteq> [], ''Password is required''),
      (\<lambda>pw. length pw \<ge> 8, ''Password must be at least 8 characters''),
      (\<lambda>pw. length pw \<le> 128, ''Password is too long''),
      (\<lambda>pw. \<exists>c \<in> set pw. spec_lowercase c, ''Password must contain at least one lowercase letter''),
      (\<lambda>pw. \<exists>c \<in> set pw. spec_uppercase c, ''Password must contain at least one uppercase letter''),
      (\<lambda>pw. \<exists>c \<in> set pw. spec_digit c, ''Password must contain at least one number''),
      (\<lambda>pw. \<exists>c \<in> set pw. spec_symbol c, ''Password must contain at least one special character'')]"

text \<open>
  The same rules with the characters listed one by one: the letters a to z and A to Z,
  the digits, and thirty special characters (the three written by their codes are the
  apostrophe, the double quote and the backslash). The tilde and the backtick are not
  among them.
\<close>

definition letters_az :: string where
  "letters_az = ''abcdefghijklmnopqrstuvwxyz''"

definition letters_AZ :: string where
  "letters_AZ = ''ABCDEFGHIJKLMNOPQRSTUVWXYZ''"

definition digits_09 :: string where
  "digits_09 = ''0123456789''"

definition listed_special :: string where
  "listed_special =
     ''!@#$%^&*()_+-=[]{};'' @ [CHR 0x27] @ '':'' @ [CHR 0x22, CHR 0x5C] @ ''|,.<>/?''"

definition listed_policy_rules :: "((string \<Rightarrow> bool) \<times> string) list" where
  "listed_policy_rules =
     [(\<lambda>pw. pw \<noteq> [], ''Password is required''),
      (\<lambda>pw. length pw \<ge> 8, ''Password must be at least 8 characters''),
      (\<lambda>pw. length pw \<le> 128, ''Password is too long''),
      (\<lambda>pw. \<exists>c \<in> set pw. c \<in> set letters_az, ''Password must contain at least one lowercase letter''),
      (\<lambda>pw. \<exists>c \<in> set pw. c \<in> set letters_AZ, ''Password must contain at least one uppercase letter''),
      (\<lambda>pw. \<exists>c \<in> set pw. c \<in> set digits_09, ''Password must contain at least one number''),
      (\<lambda>pw. \<exists>c \<in> set pw. c \<in> set listed_special, ''Password must contain at least one special character'')]"

fun first_unmet :: "((string \<Rightarrow> bool) \<times> string) list \<Rightarrow> string \<Rightarrow> string" where
  "first_unmet [] pw = []"
| "first_unmet (rule # rules) pw = (if fst rule pw then first_unmet rules pw else snd rule)"

section \<open>Providers and form states of the examples\<close>

text \<open>
  A provider that accepts every request: it answers a reset request alike for every
  address and returns no user object for an update.
\<close>

definition quietProvider :: SupabaseAuth where
  "quietProvider =
     \<lparr>resetPasswordForEmail = (\<lambda>e r. Returns None),
      updateUser = (\<lambda>ud. Returns \<lparr>data = Some None, api_error = None\<rparr>),
      auth_reauthenticate = Returns None\<rparr>"

definition filledResetForm :: ResetPasswordFormState where
  "filledResetForm =
     \<lparr>formData_password = ''Abcdef1!'', formData_confirmPassword = ''Abcdef1!'', errors = [],
      isLoading = False, isSuccess = False, isTokenValid = Some True\<rparr>"

text \<open>
  The accounts of the examples, and a provider that tells the caller when an address
  has no account.
\<close>

definition accounts :: "string list" where
  "accounts = [''user@example.com'']"

definition strictProvider :: SupabaseAuth where
  "strictProvider =
     \<lparr>resetPasswordForEmail =
        (\<lambda>e r. if e \<in> set accounts then Returns None
                else Returns (Some \<lparr>message = ''User not found''\<rparr>)),
      updateUser = (\<lambda>ud. Returns \<lparr>data = Some None, api_error = None\<rparr>),
      auth_reauthenticate = Returns None\<rparr>"

text \<open>A provider whose reset request throws, as a failed fetch does.\<close>

definition offlineProvider :: SupabaseAuth where
  "offlineProvider =
     \<lparr>resetPasswordForEmail = (\<lambda>e r. Throws (ErrorInstance ''fetch failed'')),
      updateUser = (\<lambda>ud. Throws (ErrorInstance ''fetch failed'')),
      auth_reauthenticate = Throws (ErrorInstance ''fetch failed'')\<rparr>"

definition samePasswordProvider :: SupabaseAuth where
  "samePasswordProvider =
     \<lparr>resetPasswordForEmail = (\<lambda>e r. Returns None),
      updateUser = (\<lambda>ud. Returns \<lparr>data = Some None, api_error =
        Some \<lparr>message = ''New password should be different from the old password.''\<rparr>\<rparr>),
      auth_reauthenticate = Returns None\<rparr>"

text \<open>
  A provider that wants a nonce for a password update and accepts the nonce \<open>123456\<close>;
  the second one differs in that its nonce dispatch fails.
\<close>

definition reauthProvider :: SupabaseAuth where
  "reauthProvider =
     \<lparr>resetPasswordForEmail = (\<lambda>e r. Returns None),
      updateUser = (\<lambda>ud.
        if nonce ud = Some ''123456'' then Returns \<lparr>data = Some None, api_error = None\<rparr>
        else Returns \<lparr>data = Some None, api_error =
               Some \<lparr>message = ''Password update requires reauthentication''\<rparr>\<rparr>),
      auth_reauthenticate = Returns None\<rparr>"

definition failingDispatchProvider :: SupabaseAuth where
  "failingDispatchProvider =
     reauthProvider\<lparr>auth_reauthenticate := Returns (Some \<lparr>message = ''Email rate limit exceeded''\<rparr>)\<rparr>"

text \<open>
  A provider whose rejection names the reauthentication and also carries the word
  "already", one of the markers the form takes for "same password".
\<close>

definition overlapProvider :: SupabaseAuth where
  "overlapProvider =
     reauthProvider\<lparr>updateUser := (\<lambda>ud. Returns \<lparr>data = Some None, api_error =
        Some \<lparr>message = ''Reauthentication nonce already used''\<rparr>\<rparr>)\<rparr>"

definition filledDashboardForm :: DashboardPasswordResetState where
  "filledDashboardForm =
     \<lparr>formData_password = ''Abcdef1!'', formData_confirmPassword = ''Abcdef1!'', errors = [],
      isLoading = False, isSuccess = False, formData_nonce = [], needsReauth = False,
      reauthSent = False\<rparr>"

definition wrongNonceForm :: DashboardPasswordResetState where
  "wrongNonceForm =
     filledDashboardForm\<lparr>formData_nonce := ''000000'', needsReauth := True, reauthSent := True\<rparr>"

section \<open>Facts about the string functions\<close>

lemma startsWith_prefix: "startsWith s r = prefix r s"
  by (induction s r rule: startsWith.induct) auto

lemma some_iff: "some p xs = (\<exists>x \<in> set xs. p x)"
  by (induction xs) auto

lemma includes_iff: "str_includes s r = (\<exists>i \<le> length s. prefix r (drop i s))"
proof (induction s)
  case Nil
  then show ?case by simp
next
  case (Cons x xs)
  have "(\<exists>i \<le> length (x # xs). prefix r (drop i (x # xs)))
        = (prefix r (x # xs) \<or> (\<exists>i \<le> length xs. prefix r (drop i xs)))"
  proof
    assume "\<exists>i \<le> length (x # xs). prefix r (drop i (x # xs))"
    then obtain i where i: "i \<le> length (x # xs)" "prefix r (drop i (x # xs))" by blast
    show "prefix r (x # xs) \<or> (\<exists>i \<le> length xs. prefix r (drop i xs))"
    proof (cases i)
      case 0
      with i show ?thesis by simp
    next
      case (Suc j)
      with i have "j \<le> length xs" "prefix r (drop j xs)" by simp_all
      then show ?thesis by blast
    qed
  next
    assume "prefix r (x # xs) \<or> (\<exists>i \<le> length xs. prefix r (drop i xs))"
    then show "\<exists>i \<le> length (x # xs). prefix r (drop i (x # xs))"
    proof
      assume "prefix r (x # xs)"
      then have "0 \<le> length (x # xs) \<and> prefix r (drop 0 (x # xs))" by simp
      then show ?thesis by blast
    next
      assume "\<exists>i \<le> length xs. prefix r (drop i xs)"
      then obtain j where "j \<le> length xs" "prefix r (drop j xs)" by blast
      then have "Suc j \<le> length (x # xs) \<and> prefix r (drop (Suc j) (x # xs))" by simp
      then show ?thesis by blast
    qed
  qed
  with Cons show ?case by (simp add: startsWith_prefix)
qed

lemma startsWith_Cons: "startsWith s (c # cs) = (\<exists>xs. s = c # xs \<and> startsWith xs cs)"
  by (cases s) auto

lemma startsWith_append: "startsWith (s @ t) s"
  by (induction s) auto

section \<open>The route classes of the middleware\<close>

lemma protected_not_callback: "isProtectedRoute p \<Longrightarrow> \<not> isAuthCallbackRoute p"
  by (auto simp: isProtectedRoute_def isAuthCallbackRoute_def protectedRoutes_def
      authCallbackRoutes_def startsWith_Cons)

lemma protected_not_auth: "isProtectedRoute p \<Longrightarrow> \<not> isAuthRoute p"
  by (auto simp: isProtectedRoute_def isAuthRoute_def protectedRoutes_def
      authRoutes_def startsWith_Cons)

lemma auth_not_callback: "isAuthRoute p \<Longrightarrow> \<not> isAuthCallbackRoute p"
  by (auto simp: isAuthCallbackRoute_def isAuthRoute_def authCallbackRoutes_def
      authRoutes_def startsWith_Cons)

lemma member_protected: "p \<in> set protectedRoutes \<Longrightarrow> isProtectedRoute (p @ ext)"
  unfolding isProtectedRoute_def some_iff using startsWith_append by blast

lemma member_callback: "p \<in> set authCallbackRoutes \<Longrightarrow> isAuthCallbackRoute (p @ ext)"
  unfolding isAuthCallbackRoute_def some_iff using startsWith_append by blast

lemma member_auth: "isAuthRoute p = (p \<in> set authRoutes)"
  by (auto simp: isAuthRoute_def some_iff)

text \<open>The three tests of \<open>updateSession\<close>, in the order of the source.\<close>

lemma updateSession_cases:
  "updateSession request r =
     (if isAuthCallbackRoute (pathname (nextUrl request)) then passThrough request r
      else if data_user r \<noteq> None \<and> isAuthRoute (pathname (nextUrl request))
        then dashboardRedirect request
      else if data_user r = None \<and> isProtectedRoute (pathname (nextUrl request))
        then loginRedirect request
      else passThrough request r)"
  by (simp add: updateSession_def passThrough_def dashboardRedirect_def loginRedirect_def
      new_URL_def Let_def)

lemma passThrough_not_redirect:
  "passThrough request r \<noteq> loginRedirect request'"
  "passThrough request r \<noteq> dashboardRedirect request'"
  by (simp_all add: passThrough_def loginRedirect_def dashboardRedirect_def)

section \<open>Claims about the session middleware\<close>

text \<open>
  C1. For every request path and every session state, \<open>updateSession\<close> follows the
  decision table. A path of the callback set (listed there, or classified so by the
  middleware) passes through with no redirect, whatever the session. A path of the
  protected set without a user is redirected to \<open>/auth/login\<close> with the parameter
  \<open>redirectTo\<close> equal to the requested path; with a user it passes through. A path of
  the auth-only set with a user is redirected to \<open>/dashboard\<close>; without a user it
  passes through.
\<close>

theorem updateSession_decision_table:
  assumes "pathname (nextUrl request) = path"
  shows
   "((path \<in> set authCallbackRoutes \<or> isAuthCallbackRoute path)
      \<longrightarrow> updateSession request r = passThrough request r) \<and>
    ((path \<in> set protectedRoutes \<or> isProtectedRoute path) \<and> data_user r = None
      \<longrightarrow> updateSession request r = loginRedirect request) \<and>
    ((path \<in> set protectedRoutes \<or> isProtectedRoute path) \<and> data_user r \<noteq> None
      \<longrightarrow> updateSession request r = passThrough request r) \<and>
    ((path \<in> set authRoutes \<or> isAuthRoute path) \<and> data_user r \<noteq> None
      \<longrightarrow> updateSession request r = dashboardRedirect request) \<and>
    ((path \<in> set authRoutes \<or> isAuthRoute path) \<and> data_user r = None
      \<longrightarrow> updateSession request r = passThrough request r)"
proof -
  have cb: "path \<in> set authCallbackRoutes \<or> isAuthCallbackRoute path
      \<Longrightarrow> isAuthCallbackRoute path"
    using member_callback [of path "[]"] by auto
  have pr: "path \<in> set protectedRoutes \<or> isProtectedRoute path \<Longrightarrow> isProtectedRoute path"
    using member_protected [of path "[]"] by auto
  have au: "path \<in> set authRoutes \<or> isAuthRoute path \<Longrightarrow> isAuthRoute path"
    by (simp add: member_auth)
  show ?thesis
    using assms cb pr au protected_not_callback [of path] protected_not_auth [of path]
      auth_not_callback [of path]
    by (auto simp: updateSession_cases)
qed

theorem updateSession_decision_table_witness:
  "updateSession \<lparr>nextUrl = \<lparr>origin = ''https://movies.example'', pathname = ''/auth/callback'', searchParams = [(''code'', ''abc'')]\<rparr>, cookies = []\<rparr>
     \<lparr>cookiesToSet = [], data_user = None, getUser_error = None\<rparr>
   = Next [] [] \<and>
   updateSession \<lparr>nextUrl = \<lparr>origin = ''https://movies.example'', pathname = ''/dashboard'', searchParams = []\<rparr>, cookies = []\<rparr>
     \<lparr>cookiesToSet = [], data_user = None, getUser_error = None\<rparr>
   = Redirect \<lparr>origin = ''https://movies.example'', pathname = ''/auth/login'',
        searchParams = [(''redirectTo'', ''/dashboard'')]\<rparr> \<and>
   updateSession \<lparr>nextUrl = \<lparr>origin = ''https://movies.example'', pathname = ''/profile'', searchParams = []\<rparr>, cookies = [(''sb-token'', ''old'')]\<rparr>
     \<lparr>cookiesToSet = [[(''sb-token'', ''new'')]], data_user = Some \<lparr>uid = ''u1'', email = ''a@b.c''\<rparr>, getUser_error = None\<rparr>
   = Next [(''sb-token'', ''new'')] [(''sb-token'', ''new'')] \<and>
   updateSession \<lparr>nextUrl = \<lparr>origin = ''https://movies.example'', pathname = ''/auth/login'', searchParams = []\<rparr>, cookies = []\<rparr>
     \<lparr>cookiesToSet = [], data_user = Some \<lparr>uid = ''u1'', email = ''a@b.c''\<rparr>, getUser_error = None\<rparr>
   = Redirect \<lparr>origin = ''https://movies.example'', pathname = ''/dashboard'', searchParams = []\<rparr> \<and>
   updateSession \<lparr>nextUrl = \<lparr>origin = ''https://movies.example'', pathname = ''/auth/login'', searchParams = []\<rparr>, cookies = []\<rparr>
     \<lparr>cookiesToSet = [], data_user = None, getUser_error = None\<rparr>
   = Next [] []"
proof -
  let ?o = "''https://movies.example''"
  let ?u = "Some \<lparr>uid = ''u1'', email = ''a@b.c''\<rparr>"
  note t = updateSession_decision_table [OF refl]
  have "updateSession \<lparr>nextUrl = \<lparr>origin = ?o, pathname = ''/auth/callback'', searchParams = [(''code'', ''abc'')]\<rparr>, cookies = []\<rparr>
     \<lparr>cookiesToSet = [], data_user = None, getUser_error = None\<rparr> = Next [] []"
    using t [of "\<lparr>nextUrl = \<lparr>origin = ?o, pathname = ''/auth/callback'', searchParams = [(''code'', ''abc'')]\<rparr>, cookies = []\<rparr>"
        "\<lparr>cookiesToSet = [], data_user = None, getUser_error = None\<rparr>"]
    by (simp add: authCallbackRoutes_def passThrough_def)
  moreover have "updateSession \<lparr>nextUrl = \<lparr>origin = ?o, pathname = ''/dashboard'', searchParams = []\<rparr>, cookies = []\<rparr>
     \<lparr>cookiesToSet = [], data_user = None, getUser_error = None\<rparr>
   = Redirect \<lparr>origin = ?o, pathname = ''/auth/login'', searchParams = [(''redirectTo'', ''/dashboard'')]\<rparr>"
    using t [of "\<lparr>nextUrl = \<lparr>origin = ?o, pathname = ''/dashboard'', searchParams = []\<rparr>, cookies = []\<rparr>"
        "\<lparr>cookiesToSet = [], data_user = None, getUser_error = None\<rparr>"]
    by (simp add: protectedRoutes_def loginRedirect_def)
  moreover have "updateSession \<lparr>nextUrl = \<lparr>origin = ?o, pathname = ''/profile'', searchParams = []\<rparr>, cookies = [(''sb-token'', ''old'')]\<rparr>
     \<lparr>cookiesToSet = [[(''sb-token'', ''new'')]], data_user = ?u, getUser_error = None\<rparr>
   = Next [(''sb-token'', ''new'')] [(''sb-token'', ''new'')]"
    using t [of "\<lparr>nextUrl = \<lparr>origin = ?o, pathname = ''/profile'', searchParams = []\<rparr>, cookies = [(''sb-token'', ''old'')]\<rparr>"
        "\<lparr>cookiesToSet = [[(''sb-token'', ''new'')]], data_user = ?u, getUser_error = None\<rparr>"]
    by (simp add: protectedRoutes_def passThrough_def setAll_def)
  moreover have "updateSession \<lparr>nextUrl = \<lparr>origin = ?o, pathname = ''/auth/login'', searchParams = []\<rparr>, cookies = []\<rparr>
     \<lparr>cookiesToSet = [], data_user = ?u, getUser_error = None\<rparr>
   = Redirect \<lparr>origin = ?o, pathname = ''/dashboard'', searchParams = []\<rparr>"
    using t [of "\<lparr>nextUrl = \<lparr>origin = ?o, pathname = ''/auth/login'', searchParams = []\<rparr>, cookies = []\<rparr>"
        "\<lparr>cookiesToSet = [], data_user = ?u, getUser_error = None\<rparr>"]
    by (simp add: authRoutes_def dashboardRedirect_def)
  moreover have "updateSession \<lparr>nextUrl = \<lparr>origin = ?o, pathname = ''/auth/login'', searchParams = []\<rparr>, cookies = []\<rparr>
     \<lparr>cookiesToSet = [], data_user = None, getUser_error = None\<rparr> = Next [] []"
    using t [of "\<lparr>nextUrl = \<lparr>origin = ?o, pathname = ''/auth/login'', searchParams = []\<rparr>, cookies = []\<rparr>"
        "\<lparr>cookiesToSet = [], data_user = None, getUser_error = None\<rparr>"]
    by (simp add: authRoutes_def passThrough_def)
  ultimately show ?thesis by blast
qed

text \<open>
  C2. When the provider call returns an error and no user, the middleware acts as for
  an absent session: the response is the one it gives for the same request with no
  user and no error, so a protected path is redirected to the login page and an
  auth-only path passes through.
\<close>

theorem updateSession_provider_error:
  assumes "getUser_error r \<noteq> None" and "data_user r = None"
  shows "updateSession request r = updateSession request (r\<lparr>getUser_error := None\<rparr>) \<and>
         (isProtectedRoute (pathname (nextUrl request))
            \<longrightarrow> updateSession request r = loginRedirect request) \<and>
         (isAuthRoute (pathname (nextUrl request))
            \<longrightarrow> updateSession request r = passThrough request r)"
  using assms protected_not_callback [of "pathname (nextUrl request)"]
    auth_not_callback [of "pathname (nextUrl request)"]
    protected_not_auth [of "pathname (nextUrl request)"]
  by (auto simp: updateSession_cases passThrough_def)

theorem updateSession_provider_error_witness:
  "updateSession \<lparr>nextUrl = \<lparr>origin = ''https://movies.example'', pathname = ''/watchlist'', searchParams = []\<rparr>, cookies = []\<rparr>
     \<lparr>cookiesToSet = [], data_user = None, getUser_error = Some \<lparr>message = ''invalid JWT''\<rparr>\<rparr>
   = Redirect \<lparr>origin = ''https://movies.example'', pathname = ''/auth/login'',
        searchParams = [(''redirectTo'', ''/watchlist'')]\<rparr> \<and>
   updateSession \<lparr>nextUrl = \<lparr>origin = ''https://movies.example'', pathname = ''/auth/register'', searchParams = []\<rparr>, cookies = []\<rparr>
     \<lparr>cookiesToSet = [], data_user = None, getUser_error = Some \<lparr>message = ''invalid JWT''\<rparr>\<rparr>
   = Next [] []"
proof -
  let ?r = "\<lparr>cookiesToSet = [], data_user = None, getUser_error = Some \<lparr>message = ''invalid JWT''\<rparr>\<rparr>"
  have e: "getUser_error ?r \<noteq> None" and u: "data_user ?r = None" by simp_all
  note t = updateSession_provider_error [OF e u]
  have "updateSession \<lparr>nextUrl = \<lparr>origin = ''https://movies.example'', pathname = ''/watchlist'', searchParams = []\<rparr>, cookies = []\<rparr> ?r
   = Redirect \<lparr>origin = ''https://movies.example'', pathname = ''/auth/login'',
        searchParams = [(''redirectTo'', ''/watchlist'')]\<rparr>"
    using t [of "\<lparr>nextUrl = \<lparr>origin = ''https://movies.example'', pathname = ''/watchlist'', searchParams = []\<rparr>, cookies = []\<rparr>", THEN conjunct2]
    by (simp add: isProtectedRoute_def protectedRoutes_def loginRedirect_def)
  moreover have "updateSession \<lparr>nextUrl = \<lparr>origin = ''https://movies.example'', pathname = ''/auth/register'', searchParams = []\<rparr>, cookies = []\<rparr> ?r
   = Next [] []"
    using t [of "\<lparr>nextUrl = \<lparr>origin = ''https://movies.example'', pathname = ''/auth/register'', searchParams = []\<rparr>, cookies = []\<rparr>", THEN conjunct2]
    by (simp add: isAuthRoute_def authRoutes_def passThrough_def)
  ultimately show ?thesis by blast
qed

text \<open>
  C3, as the claim states it, fails: the middleware tests protected paths with
  \<open>startsWith\<close>, so \<open>/dashboard/settings\<close>, which is none of the six listed paths,
  is classified as protected and redirected to the login page without a session.
\<close>

theorem isProtectedRoute_exact_counterexample:
  "isProtectedRoute ''/dashboard/settings'' \<and> ''/dashboard/settings'' \<notin> set protectedRoutes \<and>
   updateSession \<lparr>nextUrl = \<lparr>origin = ''https://movies.example'', pathname = ''/dashboard/settings'', searchParams = []\<rparr>, cookies = []\<rparr>
     \<lparr>cookiesToSet = [], data_user = None, getUser_error = None\<rparr>
   = Redirect \<lparr>origin = ''https://movies.example'', pathname = ''/auth/login'',
        searchParams = [(''redirectTo'', ''/dashboard/settings'')]\<rparr>"
  by (simp add: isProtectedRoute_def protectedRoutes_def updateSession_def isAuthCallbackRoute_def
      authCallbackRoutes_def isAuthRoute_def authRoutes_def new_URL_def)

text \<open>
  C3, amended. A path is classified as protected if and only if it starts with one of
  the six listed paths, and a request without a user is redirected to the login page
  if and only if its path is classified so.
\<close>

theorem isProtectedRoute_prefix:
  "isProtectedRoute path =
     (prefix ''/dashboard'' path \<or> prefix ''/profile'' path \<or> prefix ''/favorites'' path \<or>
      prefix ''/watchlist'' path \<or> prefix ''/reviews/create'' path \<or> prefix ''/movies/rate'' path) \<and>
   (updateSession request \<lparr>cookiesToSet = cs, data_user = None, getUser_error = e\<rparr> = loginRedirect request)
     = isProtectedRoute (pathname (nextUrl request))"
proof -
  have "isProtectedRoute path =
     (prefix ''/dashboard'' path \<or> prefix ''/profile'' path \<or> prefix ''/favorites'' path \<or>
      prefix ''/watchlist'' path \<or> prefix ''/reviews/create'' path \<or> prefix ''/movies/rate'' path)"
    by (simp add: isProtectedRoute_def protectedRoutes_def startsWith_prefix)
  moreover have "(updateSession request \<lparr>cookiesToSet = cs, data_user = None, getUser_error = e\<rparr> = loginRedirect request)
     = isProtectedRoute (pathname (nextUrl request))"
    using protected_not_callback [of "pathname (nextUrl request)"]
    by (auto simp: updateSession_cases passThrough_not_redirect)
  ultimately show ?thesis by blast
qed

text \<open>
  C10. Auth-only paths are matched by equality: a strict extension of an auth-only
  path is not an auth route, is never redirected to \<open>/dashboard\<close> and passes through
  for every session state, whereas the same extension of a protected path is still
  classified as protected.
\<close>

theorem isAuthRoute_exact:
  assumes "route \<in> set authRoutes" and "ext \<noteq> []" and "pathname (nextUrl request) = route @ ext"
  shows "\<not> isAuthRoute (route @ ext) \<and>
         updateSession request r \<noteq> dashboardRedirect request \<and>
         updateSession request r = passThrough request r \<and>
         (\<forall>p \<in> set protectedRoutes. isProtectedRoute (p @ ext))"
proof -
  have a: "\<not> isAuthRoute (route @ ext)"
    using assms(1,2) by (auto simp: isAuthRoute_def authRoutes_def)
  have p: "\<not> isProtectedRoute (route @ ext)"
    using assms(1) by (auto simp: isProtectedRoute_def protectedRoutes_def authRoutes_def)
  have "updateSession request r = passThrough request r"
    using a p assms(3) by (simp add: updateSession_cases)
  then show ?thesis
    using a member_protected by (simp add: passThrough_not_redirect)
qed

theorem isAuthRoute_exact_witness:
  "updateSession \<lparr>nextUrl = \<lparr>origin = ''https://movies.example'', pathname = ''/auth/login/anything'', searchParams = []\<rparr>, cookies = []\<rparr>
     \<lparr>cookiesToSet = [], data_user = Some \<lparr>uid = ''u1'', email = ''a@b.c''\<rparr>, getUser_error = None\<rparr>
   = Next [] [] \<and> isProtectedRoute ''/dashboard/anything''"
proof -
  have r: "''/auth/login'' \<in> set authRoutes" by (simp add: authRoutes_def)
  have e: "''/anything'' \<noteq> []" by simp
  have p: "pathname (nextUrl \<lparr>nextUrl = \<lparr>origin = ''https://movies.example'', pathname = ''/auth/login/anything'', searchParams = []\<rparr>, cookies = []\<rparr>)
      = ''/auth/login'' @ ''/anything''" by simp
  show ?thesis
    using isAuthRoute_exact [OF r e p,
        of "\<lparr>cookiesToSet = [], data_user = Some \<lparr>uid = ''u1'', email = ''a@b.c''\<rparr>, getUser_error = None\<rparr>"]
    by (simp add: passThrough_def protectedRoutes_def)
qed

section \<open>Claims about the password forms and the auth service\<close>

lemma dotStar_then_set: "dotStar_then cls s \<Longrightarrow> \<exists>c \<in> set s. cls c"
  by (induction s) auto

lemma regex_test_lookahead: "regex_test (dotStar_then cls) s = (\<exists>c \<in> set s. cls c)"
  by (induction s) (auto dest: dotStar_then_set)

text \<open>The classes of the regular expressions are the listed characters.\<close>

lemma class_lower_listed: "class_lower c = (c \<in> set letters_az)"
proof -
  define n where "n = (of_char c :: nat)"
  have eq: "\<And>d. (c = d) = (n = of_char d)"
    unfolding n_def by simp
  show ?thesis
    unfolding class_lower_def letters_az_def n_def [symmetric]
    by (simp add: eq) arith
qed

lemma class_upper_listed: "class_upper c = (c \<in> set letters_AZ)"
proof -
  define n where "n = (of_char c :: nat)"
  have eq: "\<And>d. (c = d) = (n = of_char d)"
    unfolding n_def by simp
  show ?thesis
    unfolding class_upper_def letters_AZ_def n_def [symmetric]
    by (simp add: eq) arith
qed

lemma class_digit_listed: "class_digit c = (c \<in> set digits_09)"
proof -
  define n where "n = (of_char c :: nat)"
  have eq: "\<And>d. (c = d) = (n = of_char d)"
    unfolding n_def by simp
  show ?thesis
    unfolding class_digit_def digits_09_def n_def [symmetric]
    by (simp add: eq) arith
qed

lemma class_special_listed: "class_special c = (c \<in> set listed_special)"
  by (auto simp: class_special_def specialChars_def listed_special_def)

lemma validatePassword_first_unmet: "validatePassword pw = first_unmet listed_policy_rules pw"
  by (simp add: validatePassword_def listed_policy_rules_def regex_test_lookahead
      class_lower_listed class_upper_listed class_digit_listed class_special_listed)

text \<open>
  C8, as the claim states it, fails: the two forms agree, but they do not accept every
  password with a lowercase letter, an uppercase letter, a digit and a symbol. The
  tilde is a symbol, and \<open>Abcdef1~\<close> meets every rule of the specification, yet both
  forms answer that a special character is missing; in the same way the letters e with
  acute (0xE9) and E with acute (0xC9) do not count as a lowercase and an uppercase
  letter.
\<close>

theorem validatePassword_symbol_counterexample:
  "spec_symbol (CHR ''~'') \<and>
   first_unmet policy_rules ''Abcdef1~'' = [] \<and>
   validatePassword ''Abcdef1~'' = ''Password must contain at least one special character'' \<and>
   ResetPasswordForm_validatePassword ''Abcdef1~''
     = ''Password must contain at least one special character'' \<and>
   first_unmet policy_rules (''ABCDEF1!'' @ [CHR 0xE9]) = [] \<and>
   validatePassword (''ABCDEF1!'' @ [CHR 0xE9])
     = ''Password must contain at least one lowercase letter'' \<and>
   first_unmet policy_rules (''abcdef1!'' @ [CHR 0xC9]) = [] \<and>
   validatePassword (''abcdef1!'' @ [CHR 0xC9])
     = ''Password must contain at least one uppercase letter''"
  by (simp add: policy_rules_def spec_lowercase_def spec_uppercase_def spec_digit_def
      spec_symbol_def validatePassword_def ResetPasswordForm_validatePassword_def
      class_lower_def class_upper_def class_digit_def class_special_def specialChars_def)

text \<open>
  C8, amended. The password rules of the reset-password form and of the dashboard form
  give the same result for every password: the message of the first rule that is not
  met, and the empty message exactly for a password of 8 to 128 units with one of the
  letters a to z, one of the letters A to Z, one of the digits 0 to 9 and one of the
  thirty listed special characters.
\<close>

theorem validatePassword_same_policy:
  "ResetPasswordForm_validatePassword pw = validatePassword pw \<and>
   validatePassword pw = first_unmet listed_policy_rules pw \<and>
   (validatePassword pw = [] \<longleftrightarrow>
      8 \<le> length pw \<and> length pw \<le> 128 \<and>
      (\<exists>c \<in> set pw. c \<in> set ''abcdefghijklmnopqrstuvwxyz'') \<and>
      (\<exists>c \<in> set pw. c \<in> set ''ABCDEFGHIJKLMNOPQRSTUVWXYZ'') \<and>
      (\<exists>c \<in> set pw. c \<in> set ''0123456789'') \<and>
      (\<exists>c \<in> set pw. c \<in> set (''!@#$%^&*()_+-=[]{};'' @ [CHR 0x27] @ '':'' @
                                   [CHR 0x22, CHR 0x5C] @ ''|,.<>/?'')))"
proof -
  have same: "ResetPasswordForm_validatePassword pw = validatePassword pw"
    by (simp add: ResetPasswordForm_validatePassword_def validatePassword_def)
  have "validatePassword pw = [] \<longleftrightarrow>
      8 \<le> length pw \<and> length pw \<le> 128 \<and> (\<exists>c \<in> set pw. class_lower c) \<and>
      (\<exists>c \<in> set pw. class_upper c) \<and> (\<exists>c \<in> set pw. class_digit c) \<and>
      (\<exists>c \<in> set pw. class_special c)"
    by (auto simp: validatePassword_def regex_test_lookahead)
  then have accept: "validatePassword pw = [] \<longleftrightarrow>
      8 \<le> length pw \<and> length pw \<le> 128 \<and>
      (\<exists>c \<in> set pw. c \<in> set ''abcdefghijklmnopqrstuvwxyz'') \<and>
      (\<exists>c \<in> set pw. c \<in> set ''ABCDEFGHIJKLMNOPQRSTUVWXYZ'') \<and>
      (\<exists>c \<in> set pw. c \<in> set ''0123456789'') \<and>
      (\<exists>c \<in> set pw. c \<in> set (''!@#$%^&*()_+-=[]{};'' @ [CHR 0x27] @ '':'' @
                                   [CHR 0x22, CHR 0x5C] @ ''|,.<>/?''))"
    unfolding class_lower_listed class_upper_listed class_digit_listed class_special_listed
      letters_az_def letters_AZ_def digits_09_def listed_special_def .
  from same validatePassword_first_unmet accept show ?thesis by blast
qed

theorem validatePassword_same_policy_witness:
  "ResetPasswordForm_validatePassword ''Abcdef1!'' = [] \<and> validatePassword ''Abcdef1!'' = [] \<and>
   ResetPasswordForm_validatePassword ''weak'' = ''Password must be at least 8 characters'' \<and>
   validatePassword ''weak'' = ''Password must be at least 8 characters'' \<and>
   ResetPasswordForm_validatePassword ''abcdefg1!'' = ''Password must contain at least one uppercase letter''"
proof -
  have a: "first_unmet listed_policy_rules ''Abcdef1!'' = []"
    by (simp add: listed_policy_rules_def letters_az_def letters_AZ_def digits_09_def
        listed_special_def)
  have b: "first_unmet listed_policy_rules ''weak'' = ''Password must be at least 8 characters''"
    by (simp add: listed_policy_rules_def)
  have c: "first_unmet listed_policy_rules ''abcdefg1!''
             = ''Password must contain at least one uppercase letter''"
    by (simp add: listed_policy_rules_def letters_az_def letters_AZ_def digits_09_def
        listed_special_def)
  show ?thesis
    using a b c validatePassword_same_policy [of "''Abcdef1!''"]
      validatePassword_same_policy [of "''weak''"] validatePassword_same_policy [of "''abcdefg1!''"]
    by simp
qed

lemma updatePassword_user:
  "error (updatePassword supabase newPassword nonce_arg) = None
     \<Longrightarrow> user (updatePassword supabase newPassword nonce_arg) \<noteq> None"
  by (auto simp: updatePassword_def Let_def split: outcome.splits option.splits)

lemma updatePassword_sentinel:
  assumes "\<forall>ud. updateUser supabase ud = Returns r" and "api_error r = None"
    and "data r = None \<or> data r = Some None"
  shows "updatePassword supabase newPassword nonce_arg = \<lparr>error = None, user = Some Updated\<rparr>"
  using assms by (auto simp: updatePassword_def Let_def)

text \<open>
  C9. Whatever the provider does, a result of \<open>updatePassword\<close> without an error has a
  user; when the provider accepts and returns no user object, the user is the object
  \<open>{ updated: true }\<close>. So \<open>handleSubmit\<close> of the reset-password form is the handler without
  its branch for no error and no user: a submission ends with the validation errors, with
  the error of the service, or in the success branch.
\<close>

theorem updatePassword_no_error_has_user:
  "(error (updatePassword supabase newPassword nonce_arg) = None
      \<longrightarrow> user (updatePassword supabase newPassword nonce_arg) \<noteq> None) \<and>
   ((\<forall>ud. updateUser supabase ud = Returns r) \<and> api_error r = None \<and>
    (data r = None \<or> data r = Some None)
      \<longrightarrow> updatePassword supabase newPassword nonce_arg = \<lparr>error = None, user = Some Updated\<rparr>) \<and>
   handleSubmit supabase st =
     (if \<not> ResetPasswordForm_validateForm st
      then (st\<lparr>errors := ResetPasswordForm_newErrors st\<rparr>, [])
      else case error (updatePassword supabase (formData_password st) None) of
             Some e \<Rightarrow>
               (st\<lparr>errors := [(''submit'', message e)], isLoading := False\<rparr>,
                [CallUpdatePassword (formData_password st) None,
                 ToastError (if message e \<noteq> [] then message e else ''Failed to reset password.'')])
           | None \<Rightarrow>
               (st\<lparr>errors := [], isLoading := False, isSuccess := True\<rparr>,
                [CallUpdatePassword (formData_password st) None,
                 ToastSuccess ''Password has been reset successfully!'', OnSuccess]))"
proof -
  have 1: "error (updatePassword supabase newPassword nonce_arg) = None
      \<longrightarrow> user (updatePassword supabase newPassword nonce_arg) \<noteq> None"
    using updatePassword_user by blast
  have 2: "(\<forall>ud. updateUser supabase ud = Returns r) \<and> api_error r = None \<and>
    (data r = None \<or> data r = Some None)
      \<longrightarrow> updatePassword supabase newPassword nonce_arg = \<lparr>error = None, user = Some Updated\<rparr>"
    using updatePassword_sentinel by blast
  have 3: "handleSubmit supabase st =
     (if \<not> ResetPasswordForm_validateForm st
      then (st\<lparr>errors := ResetPasswordForm_newErrors st\<rparr>, [])
      else case error (updatePassword supabase (formData_password st) None) of
             Some e \<Rightarrow>
               (st\<lparr>errors := [(''submit'', message e)], isLoading := False\<rparr>,
                [CallUpdatePassword (formData_password st) None,
                 ToastError (if message e \<noteq> [] then message e else ''Failed to reset password.'')])
           | None \<Rightarrow>
               (st\<lparr>errors := [], isLoading := False, isSuccess := True\<rparr>,
                [CallUpdatePassword (formData_password st) None,
                 ToastSuccess ''Password has been reset successfully!'', OnSuccess]))"
    using updatePassword_user [of supabase "formData_password st" None]
    by (auto simp: handleSubmit_def Let_def split: option.splits)
  from 1 2 3 show ?thesis by blast
qed

lemma filledResetForm_valid: "ResetPasswordForm_validateForm filledResetForm"
  by (simp add: ResetPasswordForm_validateForm_def ResetPasswordForm_newErrors_def
      filledResetForm_def ResetPasswordForm_validatePassword_def
      ResetPasswordForm_validateConfirmPassword_def
      class_lower_def class_upper_def class_digit_def class_special_def specialChars_def)

theorem updatePassword_no_error_has_user_witness:
  "updatePassword quietProvider ''Abcdef1!'' None = \<lparr>error = None, user = Some Updated\<rparr> \<and>
   handleSubmit quietProvider filledResetForm =
     (filledResetForm\<lparr>isSuccess := True\<rparr>,
      [CallUpdatePassword ''Abcdef1!'' None,
       ToastSuccess ''Password has been reset successfully!'', OnSuccess])"
proof -
  have a: "\<forall>ud. updateUser quietProvider ud = Returns \<lparr>data = Some None, api_error = None\<rparr>"
    by (simp add: quietProvider_def)
  note t = updatePassword_no_error_has_user
    [of quietProvider _ _ "\<lparr>data = Some None, api_error = None\<rparr>" filledResetForm]
  have u: "updatePassword quietProvider ''Abcdef1!'' None = \<lparr>error = None, user = Some Updated\<rparr>"
    using a t [of "''Abcdef1!''" None] by simp
  have p: "formData_password filledResetForm = ''Abcdef1!''"
    by (simp add: filledResetForm_def)
  have "handleSubmit quietProvider filledResetForm =
     (filledResetForm\<lparr>isSuccess := True\<rparr>,
      [CallUpdatePassword ''Abcdef1!'' None,
       ToastSuccess ''Password has been reset successfully!'', OnSuccess])"
    using t [of "''Abcdef1!''" None] filledResetForm_valid u p
    by (simp add: filledResetForm_def)
  with u show ?thesis by blast
qed

text \<open>
  C4, as the claim states it, fails: the service forwards an error of the provider. With
  a provider that answers "User not found" for an address without an account, the
  address of an account gets a result without error and the other address gets the
  error.
\<close>

theorem sendPasswordResetEmail_always_success_counterexample:
  "''user@example.com'' \<in> set accounts \<and> ''ghost@example.com'' \<notin> set accounts \<and>
   sendPasswordResetEmail strictProvider (Some ''https://movies.example'') ''user@example.com''
     = \<lparr>error = None\<rparr> \<and>
   sendPasswordResetEmail strictProvider (Some ''https://movies.example'') ''ghost@example.com''
     = \<lparr>error = Some \<lparr>message = ''User not found''\<rparr>\<rparr>"
  by (simp add: accounts_def sendPasswordResetEmail_def strictProvider_def)

text \<open>
  C4, amended. \<open>sendPasswordResetEmail\<close> returns no error exactly when the provider's
  call returns without one. An error the provider returns is forwarded with its
  message, and a call that throws gives the error "Failed to send password reset
  email". The result depends on the address only through the provider's answer: two
  addresses the provider answers alike get equal results.
\<close>

theorem sendPasswordResetEmail_forwards_provider:
  "(error (sendPasswordResetEmail supabase (Some orig) e1) = None
      \<longleftrightarrow> resetPasswordForEmail supabase e1 (orig @ ''/auth/reset-password'') = Returns None) \<and>
   (resetPasswordForEmail supabase e1 (orig @ ''/auth/reset-password'') = Returns (Some err)
      \<longrightarrow> sendPasswordResetEmail supabase (Some orig) e1
          = \<lparr>error = Some \<lparr>message = message err\<rparr>\<rparr>) \<and>
   (resetPasswordForEmail supabase e1 (orig @ ''/auth/reset-password'') = Throws t
      \<longrightarrow> sendPasswordResetEmail supabase (Some orig) e1
          = \<lparr>error = Some \<lparr>message = ''Failed to send password reset email''\<rparr>\<rparr>) \<and>
   (resetPasswordForEmail supabase e1 (orig @ ''/auth/reset-password'')
      = resetPasswordForEmail supabase e2 (orig @ ''/auth/reset-password'')
      \<longrightarrow> sendPasswordResetEmail supabase (Some orig) e1
          = sendPasswordResetEmail supabase (Some orig) e2)"
  by (auto simp: sendPasswordResetEmail_def split: outcome.splits option.splits)

theorem sendPasswordResetEmail_forwards_provider_witness:
  "''user@example.com'' \<in> set accounts \<and> ''ghost@example.com'' \<notin> set accounts \<and>
   sendPasswordResetEmail quietProvider (Some ''https://movies.example'') ''user@example.com''
     = sendPasswordResetEmail quietProvider (Some ''https://movies.example'') ''ghost@example.com'' \<and>
   error (sendPasswordResetEmail quietProvider (Some ''https://movies.example'') ''ghost@example.com'')
     = None \<and>
   sendPasswordResetEmail strictProvider (Some ''https://movies.example'') ''ghost@example.com''
     = \<lparr>error = Some \<lparr>message = ''User not found''\<rparr>\<rparr> \<and>
   sendPasswordResetEmail offlineProvider (Some ''https://movies.example'') ''user@example.com''
     = \<lparr>error = Some \<lparr>message = ''Failed to send password reset email''\<rparr>\<rparr>"
proof -
  let ?o = "''https://movies.example''"
  have a: "sendPasswordResetEmail quietProvider (Some ?o) ''user@example.com''
     = sendPasswordResetEmail quietProvider (Some ?o) ''ghost@example.com''"
    using sendPasswordResetEmail_forwards_provider
      [of quietProvider ?o "''user@example.com''" _ _ "''ghost@example.com''"]
    by (simp add: quietProvider_def)
  have b: "error (sendPasswordResetEmail quietProvider (Some ?o) ''ghost@example.com'') = None"
    using sendPasswordResetEmail_forwards_provider
      [of quietProvider ?o "''ghost@example.com''", THEN conjunct1]
    by (simp add: quietProvider_def)
  have c: "sendPasswordResetEmail strictProvider (Some ?o) ''ghost@example.com''
     = \<lparr>error = Some \<lparr>message = ''User not found''\<rparr>\<rparr>"
    using sendPasswordResetEmail_forwards_provider
      [of strictProvider ?o "''ghost@example.com''" "\<lparr>message = ''User not found''\<rparr>",
        THEN conjunct2, THEN conjunct1]
    by (simp add: strictProvider_def accounts_def)
  have d: "sendPasswordResetEmail offlineProvider (Some ?o) ''user@example.com''
     = \<lparr>error = Some \<lparr>message = ''Failed to send password reset email''\<rparr>\<rparr>"
    using sendPasswordResetEmail_forwards_provider
      [of offlineProvider ?o "''user@example.com''" _ "ErrorInstance ''fetch failed''",
        THEN conjunct2, THEN conjunct2, THEN conjunct1]
    by (simp add: offlineProvider_def)
  from a b c d show ?thesis by (simp add: accounts_def)
qed

section \<open>Claims about the dashboard password form\<close>

lemma filledDashboardForm_valid: "validateForm filledDashboardForm"
  by (simp add: validateForm_def newErrors_def filledDashboardForm_def validatePassword_def
      validateConfirmPassword_def class_lower_def class_upper_def class_digit_def
      class_special_def specialChars_def)

lemma wrongNonceForm_valid: "validateForm wrongNonceForm"
  by (simp add: validateForm_def newErrors_def filledDashboardForm_def wrongNonceForm_def
      validatePassword_def validateConfirmPassword_def class_lower_def class_upper_def
      class_digit_def class_special_def specialChars_def)

lemma lower_same: "toLowerCase ''New password should be different from the old password.''
   = ''new password should be different from the old password.''"
  by code_simp

lemma lower_reauth: "toLowerCase ''Password update requires reauthentication''
   = ''password update requires reauthentication''"
  by code_simp

text \<open>
  C6. When a valid submission is rejected with an error whose message the form takes for
  "same password" (Supabase's "New password should be different from the old password."
  among them), the handler shows the toast "New password must be different ..." and
  stops: no nonce is dispatched, no other toast is shown, no nonce error is set and
  \<open>needsReauth\<close> stays as it was.
\<close>

theorem handlePasswordUpdate_same_password:
  assumes "validateForm st"
    and "error (updatePassword supabase (formData_password st)
                  (if needsReauth st then Some (formData_nonce st) else None)) = Some e"
    and "samePasswordError (toLowerCase (message e))"
  shows "handlePasswordUpdate supabase st =
           (st\<lparr>isLoading := False, errors := []\<rparr>,
            [CallUpdatePassword (formData_password st)
               (if needsReauth st then Some (formData_nonce st) else None),
             ToastError mustBeDifferent]) \<and>
         count_list (snd (handlePasswordUpdate supabase st)) CallReauthenticate = 0 \<and>
         needsReauth (fst (handlePasswordUpdate supabase st)) = needsReauth st"
  using assms by (simp add: handlePasswordUpdate_def Let_def)

theorem handlePasswordUpdate_same_password_witness:
  "handlePasswordUpdate samePasswordProvider filledDashboardForm =
     (filledDashboardForm,
      [CallUpdatePassword ''Abcdef1!'' None,
       ToastError ''New password must be different from your current password. Please choose a different password.''])"
proof -
  have e: "error (updatePassword samePasswordProvider (formData_password filledDashboardForm)
                  (if needsReauth filledDashboardForm then Some (formData_nonce filledDashboardForm) else None))
           = Some \<lparr>message = ''New password should be different from the old password.''\<rparr>"
    by (simp add: updatePassword_def samePasswordProvider_def filledDashboardForm_def)
  have s: "samePasswordError (toLowerCase (message \<lparr>message = ''New password should be different from the old password.''\<rparr>))"
    by (simp add: lower_same samePasswordError_def)
  show ?thesis
    using handlePasswordUpdate_same_password [OF filledDashboardForm_valid e s]
    by (simp add: filledDashboardForm_def mustBeDifferent_def)
qed

lemma lower_overlap: "toLowerCase ''Reauthentication nonce already used''
   = ''reauthentication nonce already used''"
  by code_simp

text \<open>
  C5, as the claim states it, fails in two ways. After a rejection that requires
  reauthentication, with no nonce supplied yet, the nonce is dispatched exactly once,
  but when that dispatch itself fails the form shows the failure and does not enter
  the state \<open>needsReauth\<close>. And a rejection whose message names the reauthentication
  but also carries a same-password marker is handled as "same password": no nonce is
  dispatched at all.
\<close>

theorem handlePasswordUpdate_dispatch_counterexample:
  "validateForm filledDashboardForm \<and> \<not> needsReauth filledDashboardForm \<and>
   error (updatePassword failingDispatchProvider ''Abcdef1!'' None)
     = Some \<lparr>message = ''Password update requires reauthentication''\<rparr> \<and>
   handlePasswordUpdate failingDispatchProvider filledDashboardForm =
     (filledDashboardForm,
      [CallUpdatePassword ''Abcdef1!'' None, CallReauthenticate,
       ToastError ''Failed to send verification code: Email rate limit exceeded'']) \<and>
   \<not> needsReauth (fst (handlePasswordUpdate failingDispatchProvider filledDashboardForm)) \<and>
   error (updatePassword overlapProvider ''Abcdef1!'' None)
     = Some \<lparr>message = ''Reauthentication nonce already used''\<rparr> \<and>
   reauthRequiredError (toLowerCase ''Reauthentication nonce already used'') \<and>
   handlePasswordUpdate overlapProvider filledDashboardForm =
     (filledDashboardForm,
      [CallUpdatePassword ''Abcdef1!'' None,
       ToastError ''New password must be different from your current password. Please choose a different password.'']) \<and>
   count_list (snd (handlePasswordUpdate overlapProvider filledDashboardForm)) CallReauthenticate = 0"
proof -
  have e: "error (updatePassword failingDispatchProvider ''Abcdef1!'' None)
     = Some \<lparr>message = ''Password update requires reauthentication''\<rparr>"
    by (simp add: updatePassword_def failingDispatchProvider_def reauthProvider_def)
  have r: "error (reauthenticate failingDispatchProvider) = Some \<lparr>message = ''Email rate limit exceeded''\<rparr>"
    by (simp add: reauthenticate_def failingDispatchProvider_def reauthProvider_def)
  have p: "formData_password filledDashboardForm = ''Abcdef1!''" "\<not> needsReauth filledDashboardForm"
    by (simp_all add: filledDashboardForm_def)
  have h: "handlePasswordUpdate failingDispatchProvider filledDashboardForm =
     (filledDashboardForm,
      [CallUpdatePassword ''Abcdef1!'' None, CallReauthenticate,
       ToastError ''Failed to send verification code: Email rate limit exceeded''])"
    using filledDashboardForm_valid e r p
    by (simp add: handlePasswordUpdate_def handleSendReauth_def Let_def lower_reauth
        samePasswordError_def reauthRequiredError_def)
       (simp add: filledDashboardForm_def)
  have e': "error (updatePassword overlapProvider ''Abcdef1!'' None)
     = Some \<lparr>message = ''Reauthentication nonce already used''\<rparr>"
    by (simp add: updatePassword_def overlapProvider_def reauthProvider_def)
  have c: "reauthRequiredError (toLowerCase ''Reauthentication nonce already used'')"
    by (simp add: lower_overlap reauthRequiredError_def)
  have h': "handlePasswordUpdate overlapProvider filledDashboardForm =
     (filledDashboardForm,
      [CallUpdatePassword ''Abcdef1!'' None,
       ToastError ''New password must be different from your current password. Please choose a different password.''])"
    using filledDashboardForm_valid e' p
    by (simp add: handlePasswordUpdate_def Let_def lower_overlap samePasswordError_def
        mustBeDifferent_def)
       (simp add: filledDashboardForm_def)
  show ?thesis using filledDashboardForm_valid e h p e' c h' by simp
qed

text \<open>
  C5, amended. A valid submission is rejected with an error of the reauthentication
  class that carries no same-password marker (the handler tests those first). If
  \<open>needsReauth\<close> is false, \<open>reauthenticate\<close> is called exactly once; when that dispatch
  succeeds the form enters \<open>needsReauth\<close> and shows the toast that a code was sent, and
  when it fails the form shows the toast "Failed to send verification code: ..." with
  the message of the failure and \<open>needsReauth\<close> stays false. If \<open>needsReauth\<close> is true,
  the form stays in \<open>needsReauth\<close> with the inline nonce error and \<open>reauthenticate\<close> is
  not called.
\<close>

theorem handlePasswordUpdate_reauthentication:
  assumes "validateForm st"
    and "error (updatePassword supabase (formData_password st)
                  (if needsReauth st then Some (formData_nonce st) else None)) = Some e"
    and "reauthRequiredError (toLowerCase (message e))"
    and "\<not> samePasswordError (toLowerCase (message e))"
  shows "(\<not> needsReauth st \<longrightarrow>
            count_list (snd (handlePasswordUpdate supabase st)) CallReauthenticate = 1 \<and>
            needsReauth (fst (handlePasswordUpdate supabase st))
              = (error (reauthenticate supabase) = None) \<and>
            errors (fst (handlePasswordUpdate supabase st)) = [] \<and>
            handlePasswordUpdate supabase st =
              (case error (reauthenticate supabase) of
                 None \<Rightarrow>
                   (st\<lparr>isLoading := False, errors := [], needsReauth := True, reauthSent := True\<rparr>,
                    [CallUpdatePassword (formData_password st) None, CallReauthenticate,
                     ToastSuccess ''A verification code has been sent to your email''])
               | Some d \<Rightarrow>
                   (st\<lparr>isLoading := False, errors := []\<rparr>,
                    [CallUpdatePassword (formData_password st) None, CallReauthenticate,
                     ToastError (''Failed to send verification code: '' @ message d)]))) \<and>
         (needsReauth st \<longrightarrow>
            handlePasswordUpdate supabase st =
              (st\<lparr>isLoading := False, errors := [(''nonce'', invalidNonce)]\<rparr>,
               [CallUpdatePassword (formData_password st) (Some (formData_nonce st))]) \<and>
            count_list (snd (handlePasswordUpdate supabase st)) CallReauthenticate = 0 \<and>
            needsReauth (fst (handlePasswordUpdate supabase st)))"
proof (cases "needsReauth st")
  case True
  with assms(2) have e:
    "error (updatePassword supabase (formData_password st) (Some (formData_nonce st))) = Some e"
    by simp
  show ?thesis
    using True assms(1,3,4) e by (simp add: handlePasswordUpdate_def Let_def)
next
  case False
  with assms(2) have e:
    "error (updatePassword supabase (formData_password st) None) = Some e"
    by simp
  show ?thesis
    using False assms(1,3,4) e
    by (cases "error (reauthenticate supabase)")
       (simp_all add: handlePasswordUpdate_def handleSendReauth_def Let_def)
qed

theorem handlePasswordUpdate_reauthentication_witness:
  "handlePasswordUpdate reauthProvider filledDashboardForm =
     (filledDashboardForm\<lparr>needsReauth := True, reauthSent := True\<rparr>,
      [CallUpdatePassword ''Abcdef1!'' None, CallReauthenticate,
       ToastSuccess ''A verification code has been sent to your email'']) \<and>
   handlePasswordUpdate reauthProvider wrongNonceForm =
     (wrongNonceForm\<lparr>errors := [(''nonce'', ''Invalid or expired verification code. Please try again.'')]\<rparr>,
      [CallUpdatePassword ''Abcdef1!'' (Some ''000000'')]) \<and>
   snd (handlePasswordUpdate failingDispatchProvider filledDashboardForm) =
     [CallUpdatePassword ''Abcdef1!'' None, CallReauthenticate,
      ToastError ''Failed to send verification code: Email rate limit exceeded'']"
proof -
  have e3: "error (updatePassword failingDispatchProvider (formData_password filledDashboardForm)
                  (if needsReauth filledDashboardForm then Some (formData_nonce filledDashboardForm) else None))
           = Some \<lparr>message = ''Password update requires reauthentication''\<rparr>"
    by (simp add: updatePassword_def failingDispatchProvider_def reauthProvider_def
        filledDashboardForm_def)
  have r3: "error (reauthenticate failingDispatchProvider)
           = Some \<lparr>message = ''Email rate limit exceeded''\<rparr>"
    by (simp add: reauthenticate_def failingDispatchProvider_def reauthProvider_def)
  have e1: "error (updatePassword reauthProvider (formData_password filledDashboardForm)
                  (if needsReauth filledDashboardForm then Some (formData_nonce filledDashboardForm) else None))
           = Some \<lparr>message = ''Password update requires reauthentication''\<rparr>"
    by (simp add: updatePassword_def reauthProvider_def filledDashboardForm_def)
  have e2: "error (updatePassword reauthProvider (formData_password wrongNonceForm)
                  (if needsReauth wrongNonceForm then Some (formData_nonce wrongNonceForm) else None))
           = Some \<lparr>message = ''Password update requires reauthentication''\<rparr>"
    by (simp add: updatePassword_def reauthProvider_def filledDashboardForm_def wrongNonceForm_def)
  have c: "reauthRequiredError (toLowerCase (message \<lparr>message = ''Password update requires reauthentication''\<rparr>))"
    by (simp add: lower_reauth reauthRequiredError_def)
  have n: "\<not> samePasswordError (toLowerCase (message \<lparr>message = ''Password update requires reauthentication''\<rparr>))"
    by (simp add: lower_reauth samePasswordError_def)
  have r: "error (reauthenticate reauthProvider) = None"
    by (simp add: reauthenticate_def reauthProvider_def)
  have a: "handlePasswordUpdate reauthProvider wrongNonceForm =
     (wrongNonceForm\<lparr>errors := [(''nonce'', ''Invalid or expired verification code. Please try again.'')]\<rparr>,
      [CallUpdatePassword ''Abcdef1!'' (Some ''000000'')])"
    using handlePasswordUpdate_reauthentication [OF wrongNonceForm_valid e2 c n]
    by (simp add: wrongNonceForm_def filledDashboardForm_def invalidNonce_def)
  have b: "handlePasswordUpdate reauthProvider filledDashboardForm =
     (filledDashboardForm\<lparr>needsReauth := True, reauthSent := True\<rparr>,
      [CallUpdatePassword ''Abcdef1!'' None, CallReauthenticate,
       ToastSuccess ''A verification code has been sent to your email''])"
    using handlePasswordUpdate_reauthentication [OF filledDashboardForm_valid e1 c n] r
    by (simp add: filledDashboardForm_def)
  have d: "snd (handlePasswordUpdate failingDispatchProvider filledDashboardForm) =
     [CallUpdatePassword ''Abcdef1!'' None, CallReauthenticate,
      ToastError ''Failed to send verification code: Email rate limit exceeded'']"
    using handlePasswordUpdate_reauthentication [OF filledDashboardForm_valid e3 c n] r3
    by (simp add: filledDashboardForm_def)
  from a b d show ?thesis by blast
qed

section \<open>Claims about the tokens of the callback URL\<close>

text \<open>
  C7. For every URL, whatever the platform's parser returns for its fragment and its
  query: when the fragment carries both tokens (the first parameter of each name has a
  non-empty value), \<open>extractTokensFromUrl\<close> returns that pair; when the query carries
  both, it returns both tokens, and that pair when the fragment carries neither; and it
  returns neither token exactly when neither location carries either token.
\<close>

theorem extractTokensFromUrl_hash_or_query:
  assumes "hp = parse (drop 1 (hash loc))" and "sp = parse (search loc)"
    and "t = extractTokensFromUrl parse (Some loc)"
  shows
   "(URLSearchParams_get hp ''access_token'' = Some a \<and> a \<noteq> [] \<and>
     URLSearchParams_get hp ''refresh_token'' = Some b \<and> b \<noteq> []
       \<longrightarrow> t = \<lparr>accessToken = Some a, refreshToken = Some b\<rparr>) \<and>
    (URLSearchParams_get sp ''access_token'' = Some a \<and> a \<noteq> [] \<and>
     URLSearchParams_get sp ''refresh_token'' = Some b \<and> b \<noteq> []
       \<longrightarrow> accessToken t \<noteq> None \<and> refreshToken t \<noteq> None \<and>
           (\<not> truthy (URLSearchParams_get hp ''access_token'') \<and>
            \<not> truthy (URLSearchParams_get hp ''refresh_token'')
              \<longrightarrow> t = \<lparr>accessToken = Some a, refreshToken = Some b\<rparr>)) \<and>
    ((accessToken t = None \<and> refreshToken t = None) =
       (\<not> truthy (URLSearchParams_get hp ''access_token'') \<and>
        \<not> truthy (URLSearchParams_get sp ''access_token'') \<and>
        \<not> truthy (URLSearchParams_get hp ''refresh_token'') \<and>
        \<not> truthy (URLSearchParams_get sp ''refresh_token'')))"
proof -
  let ?ha = "URLSearchParams_get hp ''access_token''"
  let ?hr = "URLSearchParams_get hp ''refresh_token''"
  let ?sa = "URLSearchParams_get sp ''access_token''"
  let ?sr = "URLSearchParams_get sp ''refresh_token''"
  have t: "t = \<lparr>accessToken = or_js (or_js ?ha ?sa) None, refreshToken = or_js (or_js ?hr ?sr) None\<rparr>"
    using assms by (simp add: extractTokensFromUrl_def Let_def)
  have 1: "?ha = Some a \<and> a \<noteq> [] \<and> ?hr = Some b \<and> b \<noteq> []
       \<longrightarrow> t = \<lparr>accessToken = Some a, refreshToken = Some b\<rparr>"
    by (simp add: t or_js_def truthy_def)
  have 2: "?sa = Some a \<and> a \<noteq> [] \<and> ?sr = Some b \<and> b \<noteq> []
       \<longrightarrow> accessToken t \<noteq> None \<and> refreshToken t \<noteq> None \<and>
           (\<not> truthy ?ha \<and> \<not> truthy ?hr \<longrightarrow> t = \<lparr>accessToken = Some a, refreshToken = Some b\<rparr>)"
    by (auto simp: t or_js_def truthy_def split: option.splits)
  have 3: "(accessToken t = None \<and> refreshToken t = None) =
       (\<not> truthy ?ha \<and> \<not> truthy ?sa \<and> \<not> truthy ?hr \<and> \<not> truthy ?sr)"
    by (auto simp: t or_js_def truthy_def split: option.splits)
  from 1 2 3 show ?thesis by blast
qed

lemma parse_hash_example:
  "URLSearchParams ''access_token=eyJhbGci.abc&refresh_token=v1.M4x&type=recovery''
     = [(''access_token'', ''eyJhbGci.abc''), (''refresh_token'', ''v1.M4x''), (''type'', ''recovery'')]"
  by code_simp

lemma parse_query_example:
  "URLSearchParams ''?access_token=eyJhbGci.abc&refresh_token=v1.M4x''
     = [(''access_token'', ''eyJhbGci.abc''), (''refresh_token'', ''v1.M4x'')]"
  by code_simp

lemma parse_utf8_example:
  "URLSearchParams (''?name=caf%C3%A9+au+lait&raw='' @ [CHR 0xE9])
     = [(''name'', ''caf'' @ [CHR 0xE9] @ '' au lait''), (''raw'', [CHR 0xE9])]"
  by code_simp

lemma parse_empty: "URLSearchParams [] = []"
  by code_simp

lemma parse_type_only: "URLSearchParams ''?type=recovery'' = [(''type'', ''recovery'')]"
  by code_simp

theorem extractTokensFromUrl_hash_or_query_witness:
  "extractTokensFromUrl URLSearchParams
     (Some \<lparr>hash = ''#access_token=eyJhbGci.abc&refresh_token=v1.M4x&type=recovery'', search = []\<rparr>)
     = \<lparr>accessToken = Some ''eyJhbGci.abc'', refreshToken = Some ''v1.M4x''\<rparr> \<and>
   extractTokensFromUrl URLSearchParams
     (Some \<lparr>hash = [], search = ''?access_token=eyJhbGci.abc&refresh_token=v1.M4x''\<rparr>)
     = \<lparr>accessToken = Some ''eyJhbGci.abc'', refreshToken = Some ''v1.M4x''\<rparr> \<and>
   extractTokensFromUrl URLSearchParams (Some \<lparr>hash = [], search = ''?type=recovery''\<rparr>)
     = \<lparr>accessToken = None, refreshToken = None\<rparr>"
proof -
  note t = extractTokensFromUrl_hash_or_query [OF refl refl refl, of URLSearchParams]
  have a: "extractTokensFromUrl URLSearchParams
     (Some \<lparr>hash = ''#access_token=eyJhbGci.abc&refresh_token=v1.M4x&type=recovery'', search = []\<rparr>)
     = \<lparr>accessToken = Some ''eyJhbGci.abc'', refreshToken = Some ''v1.M4x''\<rparr>"
    using t [of "\<lparr>hash = ''#access_token=eyJhbGci.abc&refresh_token=v1.M4x&type=recovery'', search = []\<rparr>"
          "''eyJhbGci.abc''" "''v1.M4x''", THEN conjunct1]
    by (simp add: parse_hash_example)
  have b: "extractTokensFromUrl URLSearchParams
     (Some \<lparr>hash = [], search = ''?access_token=eyJhbGci.abc&refresh_token=v1.M4x''\<rparr>)
     = \<lparr>accessToken = Some ''eyJhbGci.abc'', refreshToken = Some ''v1.M4x''\<rparr>"
    using t [of "\<lparr>hash = [], search = ''?access_token=eyJhbGci.abc&refresh_token=v1.M4x''\<rparr>"
          "''eyJhbGci.abc''" "''v1.M4x''", THEN conjunct2, THEN conjunct1]
    by (simp add: parse_query_example parse_empty truthy_def)
  have "accessToken (extractTokensFromUrl URLSearchParams (Some \<lparr>hash = [], search = ''?type=recovery''\<rparr>)) = None \<and>
        refreshToken (extractTokensFromUrl URLSearchParams (Some \<lparr>hash = [], search = ''?type=recovery''\<rparr>)) = None"
    using t [of "\<lparr>hash = [], search = ''?type=recovery''\<rparr>" "[]" "[]",
          THEN conjunct2, THEN conjunct2]
    by (simp add: parse_type_only parse_empty truthy_def)
  then have c: "extractTokensFromUrl URLSearchParams (Some \<lparr>hash = [], search = ''?type=recovery''\<rparr>)
     = \<lparr>accessToken = None, refreshToken = None\<rparr>"
    by (cases "extractTokensFromUrl URLSearchParams (Some \<lparr>hash = [], search = ''?type=recovery''\<rparr>)") simp
  from a b c show ?thesis by blast
qed

end
